theory Spec2Isabelle
  imports Complex_Main
begin

section \<open>LSQR (nlpy/optimize/solvers/lsqr.py): conventions of the embedding\<close>

text \<open>
  The embedding follows \<^verbatim>\<open>LSQRFramework.solve\<close> statement by statement.

  \<^item> Floating-point scalars are idealised as real numbers: \<open>+\<close>, \<open>*\<close>, \<open>sqrt\<close> are exact.
    Every theorem below is a statement about this exact-arithmetic reading of the code.
    The one place where the source tests the rounding itself, \<^verbatim>\<open>1 + t <= 1\<close>, is
    modelled by the threshold that double precision gives it. Where a branch of the program
    is decided by a rounding residue (a \<open>beta\<close> that is zero in exact arithmetic and of
    the order of \<open>1e-16\<close> in double precision), the model follows the exact value, and what
    the program does on such an input is outside the model.
  \<^item> A division whose operands are both plain Python floats raises
    \<^verbatim>\<open>ZeroDivisionError\<close> on a zero divisor (\<^verbatim>\<open>math.sqrt\<close> returns a plain float, and so
    do \<^verbatim>\<open>normof2\<close>, \<^verbatim>\<open>normof4\<close>; \<^verbatim>\<open>damp\<close> is taken to be a plain float, as its default
    \<^verbatim>\<open>0.0\<close> is). A division with a numpy scalar operand (anything computed from
    \<^verbatim>\<open>numpy.linalg.norm\<close>) does not raise: it gives \<^verbatim>\<open>inf\<close> or \<^verbatim>\<open>nan\<close>.
    Where such a value is only compared (\<^verbatim>\<open>test2\<close>, \<^verbatim>\<open>test3\<close>, \<^verbatim>\<open>t1\<close>) it is a value of type
    \<open>fval\<close>; where it would flow into further arithmetic the real-valued model stops with
    the outcome \<open>NonFinite\<close>.
  \<^item> Vectors are one-dimensional numpy arrays, modelled as lists of reals; arithmetic on
    two arrays follows numpy's broadcasting rule for one-dimensional shapes and raises
    \<^verbatim>\<open>ValueError\<close> otherwise.
  \<^item> Printing is not modelled, except that formatting \<^verbatim>\<open>x[0]\<close> raises \<^verbatim>\<open>IndexError\<close>
    on an empty \<^verbatim>\<open>x\<close>.
\<close>

datatype error = TypeError | ValueError | ZeroDivisionError | IndexError | NonFinite

datatype fval = Fin real | PosInf | NegInf | NaN

text \<open>Division with a numpy scalar operand.\<close>

definition np_div :: "real \<Rightarrow> real \<Rightarrow> fval" where
  "np_div a b =
     (if b \<noteq> 0 then Fin (a / b)
      else if 0 < a then PosInf else if a < 0 then NegInf else NaN)"

text \<open>The comparison \<^verbatim>\<open>t <= c\<close> for a finite \<open>c\<close>.\<close>

fun fle :: "fval \<Rightarrow> real \<Rightarrow> bool" where
  "fle (Fin a) c = (a \<le> c)"
| "fle PosInf c = False"
| "fle NegInf c = True"
| "fle NaN c = False"

text \<open>
  The comparison \<^verbatim>\<open>1 + t <= 1\<close> of lines 324--326, which is a test on rounding: in
  double precision with rounding to nearest, ties to even, the sum \<open>1 + t\<close> rounds to at
  most \<open>1\<close> exactly when \<open>t \<le> 2\<^sup>-\<^sup>5\<^sup>3\<close>.
\<close>

fun one_plus_le_one :: "fval \<Rightarrow> bool" where
  "one_plus_le_one (Fin a) = (a \<le> 1 / 2 ^ 53)"
| "one_plus_le_one PosInf = False"
| "one_plus_le_one NegInf = True"
| "one_plus_le_one NaN = False"

subsection \<open>Scalar and vector helpers\<close>

definition normof2 :: "real \<Rightarrow> real \<Rightarrow> real" where
  "normof2 x y = sqrt (x\<^sup>2 + y\<^sup>2)"

definition normof4 :: "real \<Rightarrow> real \<Rightarrow> real \<Rightarrow> real \<Rightarrow> real" where
  "normof4 x1 x2 x3 x4 = sqrt (x1\<^sup>2 + x2\<^sup>2 + x3\<^sup>2 + x4\<^sup>2)"

definition zeros :: "nat \<Rightarrow> real list" where
  "zeros n = replicate n 0"

text \<open>
  \<^verbatim>\<open>numpy.zeros(shape, dtype)\<close> with its second positional argument: an integer is not a
  data type, and numpy raises \<^verbatim>\<open>TypeError\<close> when asked to interpret one.
\<close>

datatype dtype_arg = DtypeDefault | DtypeInt int

fun zeros_dtype :: "nat \<Rightarrow> dtype_arg \<Rightarrow> error + real list" where
  "zeros_dtype n DtypeDefault = Inr (zeros n)"
| "zeros_dtype n (DtypeInt k) = Inl TypeError"

text \<open>\<^verbatim>\<open>numpy.linalg.norm\<close> of a one-dimensional array.\<close>

definition norm_np :: "real list \<Rightarrow> real" where
  "norm_np xs = sqrt (\<Sum>a\<leftarrow>xs. a\<^sup>2)"

text \<open>\<^verbatim>\<open>numpy.dot\<close> of two one-dimensional arrays: the lengths must agree.\<close>

definition dot :: "real list \<Rightarrow> real list \<Rightarrow> error + real" where
  "dot xs ys =
     (if length xs = length ys then Inr (\<Sum>(a, b)\<leftarrow>zip xs ys. a * b) else Inl ValueError)"

text \<open>\<^verbatim>\<open>a * xs\<close> and \<^verbatim>\<open>xs /= a\<close> for a scalar \<open>a\<close>.\<close>

definition scal :: "real \<Rightarrow> real list \<Rightarrow> real list" where
  "scal a xs = map (\<lambda>b. a * b) xs"

definition vdiv :: "real list \<Rightarrow> real \<Rightarrow> real list" where
  "vdiv xs a = map (\<lambda>b. b / a) xs"

text \<open>\<^verbatim>\<open>xs - ys\<close>: equal lengths, or one operand of length one is broadcast.\<close>

definition vsub :: "real list \<Rightarrow> real list \<Rightarrow> error + real list" where
  "vsub xs ys =
     (if length xs = length ys then Inr (map2 (\<lambda>a b. a - b) xs ys)
      else case ys of [b] \<Rightarrow> Inr (map (\<lambda>a. a - b) xs)
      | _ \<Rightarrow> (case xs of [a] \<Rightarrow> Inr (map (\<lambda>b. a - b) ys) | _ \<Rightarrow> Inl ValueError))"

text \<open>\<^verbatim>\<open>xs += ys\<close> in place: \<open>ys\<close> must broadcast to the shape of \<open>xs\<close>.\<close>

definition iadd :: "real list \<Rightarrow> real list \<Rightarrow> error + real list" where
  "iadd xs ys =
     (if length xs = length ys then Inr (map2 (\<lambda>a b. a + b) xs ys)
      else case ys of [b] \<Rightarrow> Inr (map (\<lambda>a. a + b) xs) | _ \<Rightarrow> Inl ValueError)"

text \<open>\<^verbatim>\<open>max\<close> of a Python list: \<^verbatim>\<open>ValueError\<close> on the empty list.\<close>

fun max_list :: "real list \<Rightarrow> error + real" where
  "max_list [] = Inl ValueError"
| "max_list (a # as) = Inr (fold max as a)"

text \<open>Sequencing of steps that may raise: the first exception ends the computation.\<close>

definition ebind :: "error + 'a \<Rightarrow> ('a \<Rightarrow> error + 'b) \<Rightarrow> error + 'b" where
  "ebind m f = (case m of Inl e \<Rightarrow> Inl e | Inr a \<Rightarrow> f a)"

subsection \<open>Operator, request, iteration state, result\<close>

text \<open>
  The operator \<^verbatim>\<open>A\<close>: \<^verbatim>\<open>A.shape\<close>, \<^verbatim>\<open>A * v\<close> and \<^verbatim>\<open>A.T * u\<close>. The two products are
  the caller's code; they may raise, and nothing constrains the lengths they return.
  Each product returns a fresh array: no result shares storage with its argument.
\<close>

record lin_op =
  shape :: "nat \<times> nat"
  op_apply :: "real list \<Rightarrow> error + real list"
  op_applyT :: "real list \<Rightarrow> error + real list"

text \<open>The arguments of \<^verbatim>\<open>solve\<close>.\<close>

record request =
  rhs :: "real list"
  itnlim :: int
  damp :: real
  atol :: real
  btol :: real
  conlim :: real
  radius :: "real option"
  show_log :: bool
  wantvar :: bool

text \<open>The local variables of \<^verbatim>\<open>solve\<close> that live across iterations.\<close>

record lsqr_state =
  x_vec :: "real list"
  u_vec :: "real list"
  v_vec :: "real list"
  w_vec :: "real list"
  var_vec :: "real list option"
  alfa :: real
  anorm :: real
  acond :: real
  arnorm :: real
  rhobar :: real
  phibar :: real
  cs2 :: real
  sn2 :: real
  z_val :: real
  xnorm :: real
  xxnorm :: real
  ddnorm :: real
  res2 :: real
  r1norm :: real
  r2norm :: real
  istop :: nat
  tr_active :: bool

text \<open>
  The attributes \<^verbatim>\<open>solve\<close> stores on \<^verbatim>\<open>self\<close> before it returns, and \<^verbatim>\<open>self.ctol\<close>,
  which line 138 stores when \<open>conlim > 0\<close> (\<open>None\<close>: not assigned by this call).
\<close>

record result =
  self_x :: "real list"
  self_var :: "real list option"
  self_istop :: nat
  self_itn :: int
  self_r1norm :: real
  self_r2norm :: real
  self_anorm :: real
  self_acond :: real
  self_arnorm :: real
  self_xnorm :: real
  self_onBoundary :: bool
  self_status :: string
  self_ctol :: "real option"

subsection \<open>One pass of the main loop\<close>

text \<open>Lines 204--211: the next step of the bidiagonalization; returns the new \<open>beta\<close> too.\<close>

definition bidiag :: "lin_op \<Rightarrow> real \<Rightarrow> lsqr_state \<Rightarrow> error + (lsqr_state \<times> real)" where
  "bidiag A dmp s =
     ebind (op_apply A (v_vec s)) (\<lambda>Av.
     ebind (vsub Av (scal (alfa s) (u_vec s))) (\<lambda>u1.
       let beta = norm_np u1 in
       if 0 < beta then
         (let u2 = vdiv u1 beta;
              anorm1 = normof4 (anorm s) (alfa s) beta dmp
          in ebind (op_applyT A u2) (\<lambda>ATu.
             ebind (vsub ATu (scal beta (v_vec s))) (\<lambda>v1.
               let alfa1 = norm_np v1
               in Inr (s\<lparr>u_vec := u2,
                         v_vec := (if 0 < alfa1 then vdiv v1 alfa1 else v1),
                         alfa := alfa1, anorm := anorm1\<rparr>, beta))))
       else Inr (s\<lparr>u_vec := u1\<rparr>, beta)))"

text \<open>Lines 216--237: the two plane rotations and the step lengths.\<close>

record rot =
  rot_psi :: real
  rot_rho :: real
  rot_cs :: real
  rot_sn :: real
  rot_theta :: real
  rot_rhobar :: real
  rot_phi :: real
  rot_phibar :: real
  rot_tau :: real
  rot_t1 :: real
  rot_t2 :: real

definition rotations :: "real \<Rightarrow> real \<Rightarrow> real \<Rightarrow> real \<Rightarrow> real \<Rightarrow> error + rot" where
  "rotations dmp rhobar0 phibar0 alfa1 beta =
     (let rhobar1 = normof2 rhobar0 dmp in
      if rhobar1 = 0 then Inl ZeroDivisionError
      else
        let cs1 = rhobar0 / rhobar1;
            sn1 = dmp / rhobar1;
            psi = sn1 * phibar0;
            phibar1 = cs1 * phibar0;
            rho = normof2 rhobar1 beta
        in if rho = 0 then Inl ZeroDivisionError
           else
             let cs = rhobar1 / rho;
                 sn = beta / rho;
                 theta = sn * alfa1;
                 rhobar' = - cs * alfa1;
                 phi = cs * phibar1;
                 phibar' = sn * phibar1;
                 tau = sn * phi
             in Inr \<lparr>rot_psi = psi, rot_rho = rho, rot_cs = cs, rot_sn = sn,
                     rot_theta = theta, rot_rhobar = rhobar', rot_phi = phi,
                     rot_phibar = phibar', rot_tau = tau,
                     rot_t1 = phi / rho, rot_t2 = - theta / rho\<rparr>)"

text \<open>
  Lines 242--251: the distance to the trust-region boundary along \<open>w\<close>. The helper
  \<^verbatim>\<open>nlpy.tools.utils.roots_quadratic\<close> is not part of the sources at hand; it is the
  parameter \<open>rq\<close>.
\<close>

definition step_max ::
  "(real \<Rightarrow> real \<Rightarrow> real \<Rightarrow> real list) \<Rightarrow> real \<Rightarrow> lsqr_state \<Rightarrow> real \<Rightarrow> error + real" where
  "step_max rq rad s t1 =
     ebind (dot (x_vec s) (w_vec s)) (\<lambda>xw.
     ebind (dot (w_vec s) (w_vec s)) (\<lambda>ww.
       max_list (map abs
         (filter (\<lambda>r. 0 < r * t1) (rq ww (2 * xw) (xnorm s * xnorm s - rad * rad))))))"

text \<open>Lines 240--258: the boundary-limited step, taken when \<open>|t1| > |stepMax|\<close>.\<close>

definition trust_region ::
  "(real \<Rightarrow> real \<Rightarrow> real \<Rightarrow> real list) \<Rightarrow> real option \<Rightarrow> lsqr_state \<Rightarrow> rot \<Rightarrow> error + lsqr_state" where
  "trust_region rq radius_opt s r =
     (case radius_opt of
        None \<Rightarrow> Inr s
      | Some rad \<Rightarrow>
          ebind (step_max rq rad s (rot_t1 r)) (\<lambda>stepMax.
            if \<bar>rot_t1 r\<bar> > \<bar>stepMax\<bar> then
              ebind (iadd (x_vec s) (scal stepMax (w_vec s))) (\<lambda>x1.
                Inr (s\<lparr>x_vec := x1, xnorm := rad,
                        r1norm := normof2 (rot_rho r * stepMax * rot_sn r)
                                          (rot_rho r * stepMax * rot_cs r - rot_phibar r),
                        tr_active := True, istop := 8\<rparr>))
            else Inr s))"

text \<open>
  Lines 323--332: the stopping tests, in the order of the source. Each satisfied test
  assigns \<open>istop\<close>, so a later one overwrites an earlier one.
\<close>

definition stop_tests ::
  "int \<Rightarrow> int \<Rightarrow> real \<Rightarrow> fval \<Rightarrow> fval \<Rightarrow> fval \<Rightarrow> real \<Rightarrow> real \<Rightarrow> real \<Rightarrow> nat \<Rightarrow> nat" where
  "stop_tests itn itnlim1 test1 test2 test3 t1 ctol atl rtol istop0 =
     (let i7 = (if itnlim1 \<le> itn then 7 else istop0);
          i6 = (if one_plus_le_one test3 then 6 else i7);
          i5 = (if one_plus_le_one test2 then 5 else i6);
          i4 = (if one_plus_le_one t1 then 4 else i5);
          i3 = (if fle test3 ctol then 3 else i4);
          i2 = (if fle test2 atl then 2 else i3)
      in if test1 \<le> rtol then 1 else i2)"

text \<open>Lines 336--344: whether this pass prints a line of the log.\<close>

definition prnt_flag ::
  "nat \<Rightarrow> int \<Rightarrow> int \<Rightarrow> real \<Rightarrow> fval \<Rightarrow> fval \<Rightarrow> real \<Rightarrow> real \<Rightarrow> real \<Rightarrow> nat \<Rightarrow> bool" where
  "prnt_flag n itn itnlim1 test1 test2 test3 ctol atl rtol istop1 =
     (n \<le> 40 \<or> itn \<le> 10 \<or> itnlim1 - 10 \<le> itn \<or> itn mod 10 = 0 \<or>
      fle test3 (2 * ctol) \<or> fle test2 (10 * atl) \<or> test1 \<le> 10 * rtol \<or> istop1 \<noteq> 0)"

text \<open>
  Lines 270--279: the rotation on the right that eliminates \<open>theta\<close>, and the
  estimate of \<open>norm(x)\<close>.
\<close>

definition norm_x_rotation :: "lsqr_state \<Rightarrow> rot \<Rightarrow> error + lsqr_state" where
  "norm_x_rotation s r =
     (let delta = sn2 s * rot_rho r;
          gambar = - cs2 s * rot_rho r;
          rhs1 = rot_phi r - delta * z_val s;
          gamma = normof2 gambar (rot_theta r)
      in if gambar = 0 then (if gamma = 0 then Inl ZeroDivisionError else Inl NonFinite)
         else
           let zbar = rhs1 / gambar;
               z1 = rhs1 / gamma
           in if xxnorm s + zbar\<^sup>2 < 0 then Inl ValueError
              else Inr (s\<lparr>xnorm := sqrt (xxnorm s + zbar\<^sup>2), cs2 := gambar / gamma,
                         sn2 := rot_theta r / gamma, z_val := z1,
                         xxnorm := xxnorm s + z1 * z1\<rparr>))"

text \<open>
  Lines 285--303: the estimates of \<open>cond(Abar)\<close>, \<open>rnorm\<close>, \<open>arnorm\<close> and of the two
  residual norms; returns \<open>rnorm\<close> too.
\<close>

definition residual_estimates ::
  "request \<Rightarrow> lsqr_state \<Rightarrow> rot \<Rightarrow> error + (lsqr_state \<times> real)" where
  "residual_estimates P s r =
     (if ddnorm s < 0 then Inl ValueError
      else
        let res1 = (rot_phibar r)\<^sup>2;
            res2' = res2 s + (rot_psi r)\<^sup>2
        in if res1 + res2' < 0 then Inl ValueError
           else
             let rnorm = sqrt (res1 + res2');
                 r1sq = rnorm\<^sup>2 - (damp P)\<^sup>2 * xxnorm s
             in Inr (s\<lparr>acond := anorm s * sqrt (ddnorm s), res2 := res2',
                        arnorm := alfa s * \<bar>rot_tau r\<bar>,
                        r1norm := (if r1sq < 0 then - sqrt \<bar>r1sq\<bar> else sqrt \<bar>r1sq\<bar>),
                        r2norm := rnorm\<rparr>, rnorm))"

text \<open>
  Lines 308--351: the test ratios, the stopping tests and the log line. The local
  \<^verbatim>\<open>ctol\<close> is \<open>0.0\<close> throughout: line 138 assigns the attribute \<^verbatim>\<open>self.ctol\<close>, not the
  local.
\<close>

definition convergence ::
  "request \<Rightarrow> nat \<Rightarrow> int \<Rightarrow> real \<Rightarrow> int \<Rightarrow> lsqr_state \<Rightarrow> real \<Rightarrow> error + lsqr_state" where
  "convergence P n itnlim1 bnorm itn s rnorm =
     (if bnorm = 0 then Inl NonFinite
      else
        let test1 = rnorm / bnorm;
            test2 = np_div (arnorm s) (anorm s * rnorm);
            test3 = (if acond s = 0 then PosInf else Fin (1 / acond s));
            t1 = np_div test1 (1 + anorm s * xnorm s / bnorm);
            rtol = btol P + atol P * anorm s * xnorm s / bnorm;
            ctol = 0;
            istop1 = stop_tests itn itnlim1 test1 test2 test3 t1 ctol (atol P) rtol (istop s)
        in if show_log P \<and> x_vec s = [] \<and>
              prnt_flag n itn itnlim1 test1 test2 test3 ctol (atol P) rtol istop1
           then Inl IndexError
           else Inr (s\<lparr>istop := istop1\<rparr>))"

text \<open>Lines 261--351: the full step, taken when the trust region did not become active.\<close>

definition full_step ::
  "request \<Rightarrow> nat \<Rightarrow> int \<Rightarrow> real \<Rightarrow> int \<Rightarrow> lsqr_state \<Rightarrow> rot \<Rightarrow> real list \<Rightarrow> error + lsqr_state" where
  "full_step P n itnlim1 bnorm itn s r dk =
     ebind (iadd (x_vec s) (scal (rot_t1 r) (w_vec s))) (\<lambda>x1.
     ebind (iadd (scal (rot_t2 r) (w_vec s)) (v_vec s)) (\<lambda>w1.
     ebind (if wantvar P
            then (case var_vec s of None \<Rightarrow> Inl TypeError
                  | Some vr \<Rightarrow> map_sum id Some (iadd vr (map (\<lambda>a. a * a) dk)))
            else Inr (var_vec s)) (\<lambda>var1.
     ebind (norm_x_rotation
              (s\<lparr>x_vec := x1, w_vec := w1, ddnorm := ddnorm s + (norm_np dk)\<^sup>2,
                 var_vec := var1\<rparr>) r) (\<lambda>s1.
     ebind (residual_estimates P s1 r) (\<lambda>(s2, rnorm).
       convergence P n itnlim1 bnorm itn s2 rnorm)))))"

text \<open>Lines 198--351: one pass of the loop body; \<open>itn\<close> is the counter after line 198.\<close>

definition body ::
  "(real \<Rightarrow> real \<Rightarrow> real \<Rightarrow> real list) \<Rightarrow> lin_op \<Rightarrow> request \<Rightarrow> int \<Rightarrow> real \<Rightarrow> int \<Rightarrow> lsqr_state
     \<Rightarrow> error + lsqr_state" where
  "body rq A P itnlim1 bnorm itn s =
     ebind (bidiag A (damp P) s) (\<lambda>(s1, beta).
     ebind (rotations (damp P) (rhobar s1) (phibar s1) (alfa s1) beta) (\<lambda>r.
       let s2 = s1\<lparr>rhobar := rot_rhobar r, phibar := rot_phibar r\<rparr>;
           dk = scal (1 / rot_rho r) (w_vec s2)
       in ebind (trust_region rq (radius P) s2 r) (\<lambda>s3.
            if \<not> tr_active s3 then full_step P (snd (shape A)) itnlim1 bnorm itn s3 r dk
            else Inr s3)))"

text \<open>
  Lines 197--353: the main loop. It returns the final counter and state; an exception
  raised in a pass ends it.
\<close>

function loop ::
  "(real \<Rightarrow> real \<Rightarrow> real \<Rightarrow> real list) \<Rightarrow> lin_op \<Rightarrow> request \<Rightarrow> int \<Rightarrow> real \<Rightarrow> bool \<Rightarrow> int \<Rightarrow> lsqr_state
     \<Rightarrow> error + (int \<times> lsqr_state)" where
  "loop rq A P itnlim1 bnorm x_is_zero itn s =
     (if itn < itnlim1 \<and> \<not> x_is_zero then
        (case body rq A P itnlim1 bnorm (itn + 1) s of
           Inl e \<Rightarrow> Inl e
         | Inr s' \<Rightarrow>
             if 0 < istop s' then Inr (itn + 1, s')
             else loop rq A P itnlim1 bnorm x_is_zero (itn + 1) s')
      else Inr (itn, s))"
  by pat_completeness auto
termination
  by (relation "measure (\<lambda>(rq, A, P, itnlim1, bnorm, x_is_zero, itn, s). nat (itnlim1 - itn))")
    auto

subsection \<open>Initialisation and the whole call\<close>

text \<open>
  Lines 160--168: the first vectors \<open>u\<close>, \<open>v\<close>, \<open>w\<close> and the first \<open>alfa\<close>. When
  \<open>beta = 0\<close> the source leaves \<open>v\<close> unbound, and when \<open>alfa = 0\<close> it leaves \<open>w\<close>
  unbound; the loop is not entered then, and the model holds \<open>[]\<close> in their place.
\<close>

definition first_vectors ::
  "lin_op \<Rightarrow> real list \<Rightarrow> error + (real list \<times> real list \<times> real list \<times> real \<times> real)" where
  "first_vectors A b =
     (let u0 = take (fst (shape A)) b;
          beta = norm_np u0
      in ebind (if 0 < beta
                then ebind (op_applyT A (vdiv u0 beta))
                       (\<lambda>v0. Inr (vdiv u0 beta, v0, norm_np v0))
                else Inr (u0, [], 0)) (\<lambda>(u, v0, alfa0).
           Inr (u, (if 0 < alfa0 then vdiv v0 alfa0 else v0),
                (if 0 < alfa0 then vdiv v0 alfa0 else []), alfa0, beta)))"

text \<open>
  Lines 373--377: \<^verbatim>\<open>self.status\<close>. The five tests are disjoint; for any other code the
  source leaves the attribute as it was, and the model has the empty string.
\<close>

definition status_of :: "nat \<Rightarrow> string" where
  "status_of i =
     (if i = 0 then ''solution is zero''
      else if i \<in> {1, 2, 4, 5} then ''residual small''
      else if i \<in> {3, 6} then ''ill-conditioned operator''
      else if i = 7 then ''max iterations''
      else if i = 8 then ''trust-region boundary active''
      else [])"

text \<open>Lines 125--192: everything before the loop. Returns the effective iteration limit,
  \<open>bnorm\<close>, the flag \<open>x_is_zero\<close> and the first state.\<close>

definition init :: "lin_op \<Rightarrow> request \<Rightarrow> error + (int \<times> real \<times> bool \<times> lsqr_state)" where
  "init A P =
     (let n = snd (shape A);
          itnlim1 = (if itnlim P = 0 then 3 * int n else itnlim P)
      in ebind (if wantvar P then map_sum id Some (zeros_dtype n (DtypeInt 1)) else Inr None)
           (\<lambda>var0.
         ebind (first_vectors A (rhs P)) (\<lambda>(u, v, w, alfa0, beta).
           let arnorm0 = alfa0 * beta;
               x_is_zero = (arnorm0 = 0)
           in if show_log P \<and> n = 0 then Inl IndexError
              else Inr (itnlim1, beta, x_is_zero,
                        \<lparr>x_vec = zeros n, u_vec = u, v_vec = v, w_vec = w, var_vec = var0,
                         alfa = alfa0, anorm = 0, acond = 0, arnorm = arnorm0,
                         rhobar = alfa0, phibar = beta, cs2 = - 1, sn2 = 0, z_val = 0,
                         xnorm = 0, xxnorm = 0, ddnorm = 0, res2 = 0,
                         r1norm = beta, r2norm = beta, istop = 0, tr_active = False\<rparr>))))"

text \<open>\<^verbatim>\<open>LSQRFramework.solve\<close>.\<close>

definition solve ::
  "(real \<Rightarrow> real \<Rightarrow> real \<Rightarrow> real list) \<Rightarrow> lin_op \<Rightarrow> request \<Rightarrow> error + result" where
  "solve rq A P =
     ebind (init A P) (\<lambda>(itnlim1, bnorm, x_is_zero, s0).
     ebind (loop rq A P itnlim1 bnorm x_is_zero 0 s0) (\<lambda>(itn, s).
       Inr \<lparr>self_x = x_vec s, self_var = var_vec s, self_istop = istop s, self_itn = itn,
            self_r1norm = r1norm s, self_r2norm = r2norm s, self_anorm = anorm s,
            self_acond = acond s, self_arnorm = arnorm s, self_xnorm = xnorm s,
            self_onBoundary = tr_active s, self_status = status_of (istop s),
            self_ctol = (if 0 < conlim P then Some (1 / conlim P) else None)\<rparr>))"

subsection \<open>The tests of the last pass\<close>



subsection \<open>Concrete operators and the quadratic helper\<close>

text \<open>
  An operator backed by a dense matrix, given by its rows: both products check the
  length of their argument, as a product with a numpy matrix does.
\<close>

definition mat_vec :: "real list list \<Rightarrow> real list \<Rightarrow> real list" where
  "mat_vec rows v = map (\<lambda>row. \<Sum>(a, b)\<leftarrow>zip row v. a * b) rows"

definition dense_op :: "nat \<Rightarrow> nat \<Rightarrow> real list list \<Rightarrow> lin_op" where
  "dense_op m n rows =
     \<lparr>shape = (m, n),
      op_apply = (\<lambda>v. if length v = n then Inr (mat_vec rows v) else Inl ValueError),
      op_applyT = (\<lambda>u. if length u = m then Inr (mat_vec (transpose rows) u)
                        else Inl ValueError)\<rparr>"

text \<open>The identity operator of order \<open>n\<close>: both products return their argument.\<close>

definition identity_op :: "nat \<Rightarrow> lin_op" where
  "identity_op n = \<lparr>shape = (n, n), op_apply = Inr, op_applyT = Inr\<rparr>"

text \<open>
  An operator that checks nothing: it announces the shape \<open>(m, n)\<close> and both products
  return their argument, whatever its length. For \<open>m \<noteq> n\<close> the announced shape is
  inconsistent with the products.
\<close>

definition loose_op :: "nat \<Rightarrow> nat \<Rightarrow> lin_op" where
  "loose_op m n = \<lparr>shape = (m, n), op_apply = Inr, op_applyT = Inr\<rparr>"

text \<open>
  Modelled from the spec: \<^verbatim>\<open>nlpy.tools.utils.roots_quadratic\<close> is missing from the
  sources; the spec has it return the real roots of \<open>q2 s\<^sup>2 + q1 s + q0 = 0\<close>.
\<close>

definition roots_quadratic :: "real \<Rightarrow> real \<Rightarrow> real \<Rightarrow> real list" where
  "roots_quadratic q2 q1 q0 =
     (if q2 = 0 then (if q1 = 0 then [] else [- q0 / q1])
      else let d = q1\<^sup>2 - 4 * q2 * q0
           in if d < 0 then [] else [(- q1 - sqrt d) / (2 * q2), (- q1 + sqrt d) / (2 * q2)])"

text \<open>The stopping tests of lines 323--332 as a table, in the order of the source.\<close>

definition stop_table ::
  "int \<Rightarrow> int \<Rightarrow> real \<Rightarrow> fval \<Rightarrow> fval \<Rightarrow> fval \<Rightarrow> real \<Rightarrow> real \<Rightarrow> real \<Rightarrow> (bool \<times> nat) list" where
  "stop_table itn itnlim1 test1 test2 test3 t1 ctol atl rtol =
     [(itnlim1 \<le> itn, 7), (one_plus_le_one test3, 6), (one_plus_le_one test2, 5),
      (one_plus_le_one t1, 4), (fle test3 ctol, 3), (fle test2 atl, 2), (test1 \<le> rtol, 1)]"

text \<open>The default arguments of \<^verbatim>\<open>solve\<close> (line 74--76), for a given right-hand side.\<close>

definition default_request :: "real list \<Rightarrow> request" where
  "default_request b =
     \<lparr>rhs = b, itnlim = 0, damp = 0, atol = 1 / 10 ^ 9, btol = 1 / 10 ^ 9, conlim = 10 ^ 8,
      radius = None, show_log = False, wantvar = False\<rparr>"

subsection \<open>Worked inputs\<close>

text \<open>
  A two-by-two lower-bidiagonal system, \<open>A = [[24, 0], [32, 75/2]]\<close> and \<open>b = [200, 0]\<close>, with
  the states and rotations of its first two passes; and a one-by-one damped system,
  \<open>A = [[3]]\<close>, \<open>b = [1]\<close>, \<open>damp = 4\<close>, in which \<open>beta\<close> is zero in the first pass.
\<close>

definition ex_op :: lin_op where
  "ex_op = dense_op 2 2 [[24, 0], [32, 75 / 2]]"

definition ex_request :: "int \<Rightarrow> real \<Rightarrow> real option \<Rightarrow> request" where
  "ex_request k c rad = (default_request [200, 0])\<lparr>itnlim := k, conlim := c, radius := rad\<rparr>"

definition ex_s0 :: lsqr_state where
  "ex_s0 = \<lparr>x_vec = [0, 0], u_vec = [1, 0], v_vec = [1, 0], w_vec = [1, 0], var_vec = None,
            alfa = 24, anorm = 0, acond = 0, arnorm = 4800, rhobar = 24, phibar = 200,
            cs2 = - 1, sn2 = 0, z_val = 0, xnorm = 0, xxnorm = 0, ddnorm = 0, res2 = 0,
            r1norm = 200, r2norm = 200, istop = 0, tr_active = False\<rparr>"

definition ex_s0b :: lsqr_state where
  "ex_s0b = ex_s0\<lparr>u_vec := [0, 1], v_vec := [0, 1], alfa := 75 / 2, anorm := 40\<rparr>"

definition ex_r1 :: rot where
  "ex_r1 = \<lparr>rot_psi = 0, rot_rho = 40, rot_cs = 3 / 5, rot_sn = 4 / 5, rot_theta = 30,
            rot_rhobar = - (45 / 2), rot_phi = 120, rot_phibar = 160, rot_tau = 96,
            rot_t1 = 3, rot_t2 = - (3 / 4)\<rparr>"

definition ex_s1 :: "nat \<Rightarrow> lsqr_state" where
  "ex_s1 i = \<lparr>x_vec = [3, 0], u_vec = [0, 1], v_vec = [0, 1], w_vec = [- (3 / 4), 1],
            var_vec = None, alfa = 75 / 2, anorm = 40, acond = 1, arnorm = 3600,
            rhobar = - (45 / 2), phibar = 160, cs2 = 4 / 5, sn2 = 3 / 5, z_val = 12 / 5,
            xnorm = 3, xxnorm = 144 / 25, ddnorm = 1 / 1600, res2 = 0,
            r1norm = 160, r2norm = 160, istop = i, tr_active = False\<rparr>"

definition ex_result1 :: "real \<Rightarrow> result" where
  "ex_result1 c =
     \<lparr>self_x = [3, 0], self_var = None, self_istop = 7, self_itn = 1, self_r1norm = 160,
      self_r2norm = 160, self_anorm = 40, self_acond = 1, self_arnorm = 3600, self_xnorm = 3,
      self_onBoundary = False, self_status = ''max iterations'',
      self_ctol = (if 0 < c then Some (1 / c) else None)\<rparr>"

definition ex_r2 :: rot where
  "ex_r2 = \<lparr>rot_psi = 0, rot_rho = 45 / 2, rot_cs = 1, rot_sn = 0, rot_theta = 0,
            rot_rhobar = - (75 / 2), rot_phi = - 160, rot_phibar = 0, rot_tau = 0,
            rot_t1 = - (64 / 9), rot_t2 = 0\<rparr>"

definition ex_s2 :: lsqr_state where
  "ex_s2 = \<lparr>x_vec = [54 / 25, 28 / 25], u_vec = [0, 0], v_vec = [0, 1],
            w_vec = [- (3 / 4), 1], var_vec = None, alfa = 75 / 2, anorm = 40, acond = 1,
            arnorm = 3600, rhobar = - (75 / 2), phibar = 0, cs2 = 4 / 5, sn2 = 3 / 5,
            z_val = 12 / 5, xnorm = 4, xxnorm = 144 / 25, ddnorm = 1 / 1600, res2 = 0,
            r1norm = 126 / 5, r2norm = 160, istop = 8, tr_active = True\<rparr>"

definition ex_result2 :: "real \<Rightarrow> result" where
  "ex_result2 c =
     \<lparr>self_x = [54 / 25, 28 / 25], self_var = None, self_istop = 8, self_itn = 2,
      self_r1norm = 126 / 5, self_r2norm = 160, self_anorm = 40, self_acond = 1,
      self_arnorm = 3600, self_xnorm = 4, self_onBoundary = True,
      self_status = ''trust-region boundary active'',
      self_ctol = (if 0 < c then Some (1 / c) else None)\<rparr>"

definition deg_op :: lin_op where
  "deg_op = dense_op 1 1 [[3]]"

definition deg_request :: "real option \<Rightarrow> request" where
  "deg_request rad = (default_request [1])\<lparr>damp := 4, radius := rad\<rparr>"

definition deg_s0 :: lsqr_state where
  "deg_s0 = \<lparr>x_vec = [0], u_vec = [1], v_vec = [1], w_vec = [1], var_vec = None,
            alfa = 3, anorm = 0, acond = 0, arnorm = 3, rhobar = 3, phibar = 1,
            cs2 = - 1, sn2 = 0, z_val = 0, xnorm = 0, xxnorm = 0, ddnorm = 0, res2 = 0,
            r1norm = 1, r2norm = 1, istop = 0, tr_active = False\<rparr>"

definition deg_s1 :: lsqr_state where
  "deg_s1 = \<lparr>x_vec = [3 / 25], u_vec = [0], v_vec = [1], w_vec = [1], var_vec = None,
            alfa = 3, anorm = 0, acond = 0, arnorm = 0, rhobar = - 3, phibar = 0,
            cs2 = 1, sn2 = 0, z_val = 3 / 25, xnorm = 3 / 25, xxnorm = 9 / 625,
            ddnorm = 1 / 25, res2 = 16 / 25, r1norm = 16 / 25, r2norm = 4 / 5, istop = 0,
            tr_active = False\<rparr>"

text \<open>
  The operator that checks nothing, with two columns and \<open>b = [5]\<close>: the state after
  initialisation, the state after the only pass, and the result. The vectors \<open>u\<close>, \<open>v\<close>,
  \<open>w\<close> have length one; line 261 broadcasts \<open>t1 * w\<close> over the two entries of \<open>x\<close>.
\<close>

definition loose_s0 :: lsqr_state where
  "loose_s0 = \<lparr>x_vec = [0, 0], u_vec = [1], v_vec = [1], w_vec = [1], var_vec = None,
            alfa = 1, anorm = 0, acond = 0, arnorm = 5, rhobar = 1, phibar = 5,
            cs2 = - 1, sn2 = 0, z_val = 0, xnorm = 0, xxnorm = 0, ddnorm = 0, res2 = 0,
            r1norm = 5, r2norm = 5, istop = 0, tr_active = False\<rparr>"

definition loose_s1 :: lsqr_state where
  "loose_s1 = \<lparr>x_vec = [5, 5], u_vec = [0], v_vec = [1], w_vec = [1], var_vec = None,
            alfa = 1, anorm = 0, acond = 0, arnorm = 0, rhobar = - 1, phibar = 0,
            cs2 = 1, sn2 = 0, z_val = 5, xnorm = 5, xxnorm = 25, ddnorm = 1, res2 = 0,
            r1norm = 0, r2norm = 0, istop = 1, tr_active = False\<rparr>"

definition loose_result :: result where
  "loose_result =
     \<lparr>self_x = [5, 5], self_var = None, self_istop = 1, self_itn = 1, self_r1norm = 0,
      self_r2norm = 0, self_anorm = 0, self_acond = 0, self_arnorm = 0, self_xnorm = 5,
      self_onBoundary = False, self_status = ''residual small'',
      self_ctol = Some (1 / 10 ^ 8)\<rparr>"

subsection \<open>Reached states and the residual estimate\<close>

text \<open>
  The states at which the loop condition of line 197 is evaluated, with the value of the
  counter: the state after initialisation, and the state after each pass that was entered
  with \<open>itn < itnlim\<close> and stop code 0.
\<close>

inductive reached ::
  "(real \<Rightarrow> real \<Rightarrow> real \<Rightarrow> real list) \<Rightarrow> lin_op \<Rightarrow> request \<Rightarrow> int \<Rightarrow> lsqr_state \<Rightarrow> bool"
  for rq A P where
    reached_init: "init A P = Inr (L, bnorm, xz, s0) \<Longrightarrow> reached rq A P 0 s0"
  | reached_pass:
      "reached rq A P itn s \<Longrightarrow> init A P = Inr (L, bnorm, False, s0) \<Longrightarrow> itn < L \<Longrightarrow>
       istop s = 0 \<Longrightarrow> body rq A P L bnorm (itn + 1) s = Inr s' \<Longrightarrow>
       reached rq A P (itn + 1) s'"

text \<open>The value that lines 300--302 give \<open>r1norm\<close>, in terms of the running sums.\<close>

definition r1_inv :: "request \<Rightarrow> lsqr_state \<Rightarrow> bool" where
  "r1_inv P s \<longleftrightarrow> r1norm s = sqrt ((phibar s)\<^sup>2 + res2 s - (damp P)\<^sup>2 * xxnorm s)"

text \<open>The one-by-one system without a radius: the state after its second pass.\<close>

definition deg_s2 :: lsqr_state where
  "deg_s2 = \<lparr>x_vec = [3 / 25], u_vec = [1], v_vec = [0], w_vec = [0], var_vec = None,
            alfa = 0, anorm = sqrt 34, acond = sqrt 34 * sqrt (59 / 850), arnorm = 0,
            rhobar = 0, phibar = 0, cs2 = - 1, sn2 = 0, z_val = 0, xnorm = 3 / 25,
            xxnorm = 9 / 625, ddnorm = 59 / 850, res2 = 16 / 25, r1norm = 16 / 25,
            r2norm = 4 / 5, istop = 2, tr_active = False\<rparr>"

section \<open>Basic facts\<close>

lemma ebind_Inl [simp]: "ebind (Inl e) f = Inl e"
  by (simp add: ebind_def)

lemma ebind_Inr [simp]: "ebind (Inr a) f = f a"
  by (simp add: ebind_def)

lemma ebind_eq_Inr: "ebind m f = Inr b \<longleftrightarrow> (\<exists>a. m = Inr a \<and> f a = Inr b)"
  by (cases m) simp_all

lemma sqrt_eqI: "0 \<le> y \<Longrightarrow> y * y = x \<Longrightarrow> sqrt x = y"
  by (rule real_sqrt_unique) (simp_all add: power2_eq_square)

lemma norm_np_zero: "\<forall>a\<in>set xs. a = 0 \<Longrightarrow> norm_np xs = 0"
  by (induction xs) (simp_all add: norm_np_def)

declare loop.simps [simp del]

lemma loop_not_entered: "loop rq A P itnlim1 bnorm True itn s = Inr (itn, s)"
  by (simp add: loop.simps)

lemma loop_at_limit: "itnlim1 \<le> itn \<Longrightarrow> loop rq A P itnlim1 bnorm xz itn s = Inr (itn, s)"
  by (simp add: loop.simps)

lemma loop_pass:
  "itn < itnlim1 \<Longrightarrow> \<not> xz \<Longrightarrow>
   loop rq A P itnlim1 bnorm xz itn s =
     (case body rq A P itnlim1 bnorm (itn + 1) s of
        Inl e \<Rightarrow> Inl e
      | Inr s1 \<Rightarrow> if 0 < istop s1 then Inr (itn + 1, s1)
                 else loop rq A P itnlim1 bnorm xz (itn + 1) s1)"
  by (subst loop.simps) simp

subsection \<open>The stop code and the trust-region flag through one pass\<close>

lemma stop_tests_range:
  "stop_tests itn L test1 test2 test3 t1 ctol atl rtol i0 \<in> {i0, 1, 2, 3, 4, 5, 6, 7}"
  by (simp add: stop_tests_def)

lemma stop_tests_at_limit:
  "L \<le> itn \<Longrightarrow> stop_tests itn L test1 test2 test3 t1 ctol atl rtol i0 \<in> {1, 2, 3, 4, 5, 6, 7}"
  by (simp add: stop_tests_def)

lemma bidiag_keeps_flags:
  "bidiag A d s = Inr (s1, beta) \<Longrightarrow> tr_active s1 = tr_active s \<and> istop s1 = istop s"
  by (auto simp add: bidiag_def ebind_eq_Inr Let_def split: if_splits)


lemma norm_x_rotation_flags:
  "norm_x_rotation s r = Inr s' \<Longrightarrow> tr_active s' = tr_active s \<and> istop s' = istop s"
  by (auto simp add: norm_x_rotation_def Let_def split: if_splits)

lemma residual_estimates_flags:
  "residual_estimates P s r = Inr (s', rn) \<Longrightarrow> tr_active s' = tr_active s \<and> istop s' = istop s"
  by (auto simp add: residual_estimates_def Let_def split: if_splits)

lemma convergence_Inr:
  "convergence P n L b i s rn = Inr s' \<Longrightarrow>
     s' = s\<lparr>istop := stop_tests i L (rn / b) (np_div (arnorm s) (anorm s * rn))
                   (if acond s = 0 then PosInf else Fin (1 / acond s))
                   (np_div (rn / b) (1 + anorm s * xnorm s / b)) 0 (atol P)
                   (btol P + atol P * anorm s * xnorm s / b) (istop s)\<rparr>"
  by (simp add: convergence_def Let_def split: if_splits)

lemma convergence_flags:
  assumes "convergence P n L b i s rn = Inr s'"
  shows "tr_active s' = tr_active s"
    and "istop s' \<in> {istop s, 1, 2, 3, 4, 5, 6, 7}"
    and "L \<le> i \<Longrightarrow> istop s' \<in> {1, 2, 3, 4, 5, 6, 7}"
proof -
  note e = convergence_Inr [OF assms]
  have q: "istop s' = stop_tests i L (rn / b) (np_div (arnorm s) (anorm s * rn))
                   (if acond s = 0 then PosInf else Fin (1 / acond s))
                   (np_div (rn / b) (1 + anorm s * xnorm s / b)) 0 (atol P)
                   (btol P + atol P * anorm s * xnorm s / b) (istop s)"
    by (subst e) simp
  show "tr_active s' = tr_active s" by (subst e) simp
  show "istop s' \<in> {istop s, 1, 2, 3, 4, 5, 6, 7}"
    unfolding q by (rule stop_tests_range)
  show "L \<le> i \<Longrightarrow> istop s' \<in> {1, 2, 3, 4, 5, 6, 7}"
    unfolding q by (rule stop_tests_at_limit)
qed

lemma full_step_flags:
  assumes "full_step P n L b i s r dk = Inr s'"
  shows "tr_active s' = tr_active s"
    and "istop s' \<in> {istop s, 1, 2, 3, 4, 5, 6, 7}"
    and "L \<le> i \<Longrightarrow> istop s' \<in> {1, 2, 3, 4, 5, 6, 7}"
proof -
  from assms obtain x1 w1 var1 s1 s2 rn where
    n: "norm_x_rotation (s\<lparr>x_vec := x1, w_vec := w1, ddnorm := ddnorm s + (norm_np dk)\<^sup>2,
                 var_vec := var1\<rparr>) r = Inr s1" and
    e: "residual_estimates P s1 r = Inr (s2, rn)" and
    c: "convergence P n L b i s2 rn = Inr s'"
    by (auto simp add: full_step_def ebind_eq_Inr)
  from norm_x_rotation_flags [OF n] residual_estimates_flags [OF e]
  have k: "tr_active s2 = tr_active s" "istop s2 = istop s" by simp_all
  from convergence_flags [OF c] k
  show "tr_active s' = tr_active s"
    and "istop s' \<in> {istop s, 1, 2, 3, 4, 5, 6, 7}"
    and "L \<le> i \<Longrightarrow> istop s' \<in> {1, 2, 3, 4, 5, 6, 7}"
    by simp_all
qed


subsection \<open>The loop counter\<close>

lemma loop_bounds:
  "loop rq A P L b xz itn s = Inr (itn', s') \<Longrightarrow> itn \<le> itn' \<and> itn' \<le> max itn L"
proof (induction rq A P L b xz itn s rule: loop.induct)
  case (1 rq A P L b xz itn s)
  show ?case
  proof (cases "itn < L \<and> \<not> xz")
    case False
    with "1.prems" show ?thesis by (simp add: loop.simps [of rq A P L b xz itn s])
  next
    case True
    then have u: "loop rq A P L b xz itn s =
        (case body rq A P L b (itn + 1) s of
           Inl e \<Rightarrow> Inl e
         | Inr s1 \<Rightarrow> if 0 < istop s1 then Inr (itn + 1, s1)
                    else loop rq A P L b xz (itn + 1) s1)"
      by (subst loop.simps) simp
    from "1.prems"(1) obtain s1 where
      b: "body rq A P L b (itn + 1) s = Inr s1" and
      r: "(if 0 < istop s1 then Inr (itn + 1, s1) else loop rq A P L b xz (itn + 1) s1)
            = Inr (itn', s')"
      unfolding u by (auto split: sum.splits)
    show ?thesis
    proof (cases "0 < istop s1")
      case True
      with r \<open>itn < L \<and> \<not> xz\<close> show ?thesis by auto
    next
      case False
      with r have "loop rq A P L b xz (itn + 1) s1 = Inr (itn', s')" by simp
      from "1.IH" [OF \<open>itn < L \<and> \<not> xz\<close> b False this] \<open>itn < L \<and> \<not> xz\<close>
      show ?thesis by auto
    qed
  qed
qed



section \<open>The worked inputs, pass by pass\<close>

lemma sqrt_vals:
  "sqrt 40000 = 200" "sqrt 576 = 24" "sqrt 1024 = 32" "sqrt 1600 = 40" "sqrt 2500 = 50"
  "sqrt 25600 = 160" "sqrt 9 = 3" "sqrt (5625 / 4) = 75 / 2" "sqrt (2025 / 4) = 45 / 2"
  "sqrt (1 / 1600) = 1 / 40" "sqrt 64 = 8"
  by (rule sqrt_eqI; simp)+

lemma ex_init:
  "init ex_op (ex_request k c rad) = Inr ((if k = 0 then 6 else k), 200, False, ex_s0)"
  by (simp add: init_def ex_op_def ex_request_def default_request_def dense_op_def
      first_vectors_def norm_np_def vdiv_def mat_vec_def zeros_def ex_s0_def sqrt_vals
      numeral_2_eq_2)

lemma ex_bidiag1: "bidiag ex_op 0 ex_s0 = Inr (ex_s0b, 32)"
  by (simp add: bidiag_def ex_op_def dense_op_def mat_vec_def vsub_def scal_def norm_np_def
      vdiv_def normof4_def ex_s0_def ex_s0b_def sqrt_vals)

lemma ex_rot1: "rotations 0 24 200 (75 / 2) 32 = Inr ex_r1"
  by (simp add: rotations_def normof2_def sqrt_vals Let_def ex_r1_def)

lemma ex_tr1_none:
  "trust_region rq None (ex_s0b\<lparr>rhobar := - (45 / 2), phibar := 160\<rparr>) ex_r1
     = Inr (ex_s0b\<lparr>rhobar := - (45 / 2), phibar := 160\<rparr>)"
  by (simp add: trust_region_def)

lemmas stage_defs = norm_x_rotation_def residual_estimates_def convergence_def full_step_def
  stop_tests_def prnt_flag_def normof2_def norm_np_def scal_def iadd_def np_div_def Let_def

lemma ex_full1:
  "full_step (ex_request k c rad) 2 L 200 1 (ex_s0b\<lparr>rhobar := - (45 / 2), phibar := 160\<rparr>)
     ex_r1 (scal (1 / 40) [1, 0]) = Inr (ex_s1 (if L \<le> 1 then 7 else 0))"
  by (simp add: stage_defs ex_request_def default_request_def ex_s0b_def ex_s0_def ex_r1_def
      ex_s1_def sqrt_vals power2_eq_square)

lemma ex_body1_none:
  "body rq ex_op (ex_request k c None) L 200 1 ex_s0 = Inr (ex_s1 (if L \<le> 1 then 7 else 0))"
proof -
  have p: "damp (ex_request k c None) = 0" "radius (ex_request k c None) = None"
    by (simp_all add: ex_request_def default_request_def)
  have q: "rhobar ex_s0b = 24" "phibar ex_s0b = 200" "alfa ex_s0b = 75 / 2"
    "w_vec ex_s0b = [1, 0]" "snd (shape ex_op) = 2" "\<not> tr_active ex_s0b"
    by (simp_all add: ex_s0b_def ex_s0_def ex_op_def dense_op_def)
  have r: "rot_rhobar ex_r1 = - (45 / 2)" "rot_phibar ex_r1 = 160" "rot_rho ex_r1 = 40"
    by (simp_all add: ex_r1_def)
  show ?thesis
    by (simp add: body_def p ex_bidiag1 q ex_rot1 r ex_tr1_none ex_full1 Let_def)
qed

lemma ex_solve1: "solve rq ex_op (ex_request 1 c None) = Inr (ex_result1 c)"
proof -
  have l: "loop rq ex_op (ex_request 1 c None) 1 200 False 0 ex_s0 = Inr (1, ex_s1 7)"
    by (simp add: loop_pass ex_body1_none ex_s1_def)
  have c: "conlim (ex_request 1 c None) = c"
    by (simp add: ex_request_def)
  show ?thesis
    by (simp add: solve_def ex_init l c ex_s1_def ex_result1_def status_of_def)
qed

lemma ex_tr1_some:
  "trust_region roots_quadratic (Some 4) (ex_s0b\<lparr>rhobar := - (45 / 2), phibar := 160\<rparr>) ex_r1
     = Inr (ex_s0b\<lparr>rhobar := - (45 / 2), phibar := 160\<rparr>)"
  by (simp add: trust_region_def step_max_def dot_def roots_quadratic_def ex_s0b_def ex_s0_def
      ex_r1_def sqrt_vals)

lemma ex_body1_some:
  "body roots_quadratic ex_op (ex_request k c (Some 4)) L 200 1 ex_s0
     = Inr (ex_s1 (if L \<le> 1 then 7 else 0))"
proof -
  have p: "damp (ex_request k c (Some 4)) = 0" "radius (ex_request k c (Some 4)) = Some 4"
    by (simp_all add: ex_request_def default_request_def)
  have q: "rhobar ex_s0b = 24" "phibar ex_s0b = 200" "alfa ex_s0b = 75 / 2"
    "w_vec ex_s0b = [1, 0]" "snd (shape ex_op) = 2" "\<not> tr_active ex_s0b"
    by (simp_all add: ex_s0b_def ex_s0_def ex_op_def dense_op_def)
  have r: "rot_rhobar ex_r1 = - (45 / 2)" "rot_phibar ex_r1 = 160" "rot_rho ex_r1 = 40"
    by (simp_all add: ex_r1_def)
  show ?thesis
    by (simp add: body_def p ex_bidiag1 q ex_rot1 r ex_tr1_some ex_full1 Let_def)
qed

lemma ex_bidiag2: "bidiag ex_op 0 (ex_s1 0) = Inr ((ex_s1 0)\<lparr>u_vec := [0, 0]\<rparr>, 0)"
  by (simp add: bidiag_def ex_op_def dense_op_def mat_vec_def vsub_def scal_def norm_np_def
      ex_s1_def)

lemma ex_rot2: "rotations 0 (- (45 / 2)) 160 (75 / 2) 0 = Inr ex_r2"
  by (simp add: rotations_def normof2_def sqrt_vals Let_def ex_r2_def power2_eq_square)

lemma sqrt_vals2: "sqrt (15876 / 25) = 126 / 5"
  by (rule sqrt_eqI; simp)

lemma ex_tr2:
  "trust_region roots_quadratic (Some 4)
     ((ex_s1 0)\<lparr>u_vec := [0, 0], rhobar := - (75 / 2), phibar := 0\<rparr>) ex_r2 = Inr ex_s2"
  by (simp add: trust_region_def step_max_def dot_def roots_quadratic_def ex_s1_def ex_r2_def
      sqrt_vals sqrt_vals2 scal_def iadd_def normof2_def power2_eq_square Let_def ex_s2_def)

lemma ex_body2:
  "body roots_quadratic ex_op (ex_request k c (Some 4)) L 200 2 (ex_s1 0) = Inr ex_s2"
proof -
  have p: "damp (ex_request k c (Some 4)) = 0" "radius (ex_request k c (Some 4)) = Some 4"
    by (simp_all add: ex_request_def default_request_def)
  have q: "rhobar (ex_s1 0) = - (45 / 2)" "phibar (ex_s1 0) = 160" "alfa (ex_s1 0) = 75 / 2"
    by (simp_all add: ex_s1_def)
  have r: "rot_rhobar ex_r2 = - (75 / 2)" "rot_phibar ex_r2 = 0" "tr_active ex_s2"
    by (simp_all add: ex_r2_def ex_s2_def)
  show ?thesis
    by (simp add: body_def p ex_bidiag2 q ex_rot2 r ex_tr2 Let_def)
qed

lemma ex_solve2: "solve roots_quadratic ex_op (ex_request 0 c (Some 4)) = Inr (ex_result2 c)"
proof -
  have i: "istop (ex_s1 0) = 0" "istop ex_s2 = 8"
    by (simp_all add: ex_s1_def ex_s2_def)
  have l: "loop roots_quadratic ex_op (ex_request 0 c (Some 4)) 6 200 False 0 ex_s0
             = Inr (2, ex_s2)"
    by (simp add: loop_pass ex_body1_some ex_body2 i)
  have c: "conlim (ex_request 0 c (Some 4)) = c"
    by (simp add: ex_request_def)
  show ?thesis
    by (simp add: solve_def ex_init l c ex_s2_def ex_result2_def status_of_def)
qed

lemma sqrt_vals3:
  "sqrt 25 = 5" "sqrt (16 / 25) = 4 / 5" "sqrt (9 / 625) = 3 / 25" "sqrt (1 / 25) = 1 / 5"
  "sqrt (256 / 625) = 16 / 25"
  by (rule sqrt_eqI; simp)+

lemma deg_init: "init deg_op (deg_request rad) = Inr (3, 1, False, deg_s0)"
  by (simp add: init_def deg_op_def deg_request_def default_request_def dense_op_def
      first_vectors_def norm_np_def vdiv_def mat_vec_def zeros_def deg_s0_def sqrt_vals Let_def)

lemmas pass_defs = body_def bidiag_def rotations_def trust_region_def step_max_def dot_def
  roots_quadratic_def stage_defs vsub_def dense_op_def mat_vec_def vdiv_def normof4_def

lemma deg_body1: "body roots_quadratic deg_op (deg_request (Some 1)) 3 1 1 deg_s0 = Inr deg_s1"
  by (simp add: pass_defs deg_op_def deg_request_def default_request_def
      deg_s0_def deg_s1_def sqrt_vals sqrt_vals3 power2_eq_square)

lemma deg_body2: "body rq deg_op (deg_request (Some 1)) 3 1 2 deg_s1 = Inl ValueError"
  by (simp add: pass_defs deg_op_def deg_request_def default_request_def
      deg_s1_def sqrt_vals sqrt_vals3 power2_eq_square)

section \<open>Further facts about the helpers\<close>

lemma ebind_isl: "isl m \<Longrightarrow> isl (ebind m f)"
  by (cases m) simp_all

lemma sum_squares_nonneg: "0 \<le> (\<Sum>a\<leftarrow>xs. a\<^sup>2)" for xs :: "real list"
  by (induction xs) simp_all

lemma norm_np_nonneg: "0 \<le> norm_np xs"
  by (simp add: norm_np_def sum_squares_nonneg)

section \<open>The residual estimate through one pass\<close>









subsection \<open>The states the loop reaches\<close>

lemma first_vectors_beta:
  "first_vectors A b = Inr (u, v, w, a, be) \<Longrightarrow> be = norm_np (take (fst (shape A)) b)"
  by (auto simp add: first_vectors_def Let_def ebind_eq_Inr split: if_splits)

lemma init_state:
  assumes "init A P = Inr (L, bn, xz, s0)"
  shows "\<not> tr_active s0" and "istop s0 = 0" and "r1_inv P s0"
proof -
  from assms show "\<not> tr_active s0" and "istop s0 = 0"
    by (auto simp add: init_def Let_def ebind_eq_Inr split: if_splits)
  from assms obtain u v w a where "first_vectors A (rhs P) = Inr (u, v, w, a, bn)"
    by (auto simp add: init_def Let_def ebind_eq_Inr split: if_splits)
  from first_vectors_beta [OF this] have "0 \<le> bn"
    by (simp add: norm_np_nonneg)
  with assms show "r1_inv P s0"
    by (auto simp add: init_def Let_def ebind_eq_Inr r1_inv_def split: if_splits)
qed


lemma loop_reached:
  "\<not> xz \<Longrightarrow> loop rq A P L bn xz itn s = Inr (itn', s') \<Longrightarrow>
   init A P = Inr (L, bn, False, s0) \<Longrightarrow> istop s = 0 \<Longrightarrow> reached rq A P itn s \<Longrightarrow>
   reached rq A P itn' s'"
proof (induction rq A P L bn xz itn s rule: loop.induct)
  case (1 rq A P L b xz itn s)
  show ?case
  proof (cases "itn < L")
    case False
    with "1.prems"(2) have "itn' = itn" "s' = s"
      by (simp_all add: loop_at_limit)
    with "1.prems"(5) show ?thesis by simp
  next
    case True
    with "1.prems"(1) have c: "itn < L \<and> \<not> xz" by simp
    then have u: "loop rq A P L b xz itn s =
        (case body rq A P L b (itn + 1) s of
           Inl e \<Rightarrow> Inl e
         | Inr s1 \<Rightarrow> if 0 < istop s1 then Inr (itn + 1, s1)
                    else loop rq A P L b xz (itn + 1) s1)"
      by (subst loop.simps) simp
    from "1.prems"(2) obtain s1 where
      b: "body rq A P L b (itn + 1) s = Inr s1" and
      r: "(if 0 < istop s1 then Inr (itn + 1, s1) else loop rq A P L b xz (itn + 1) s1)
            = Inr (itn', s')"
      unfolding u by (auto split: sum.splits)
    have n: "reached rq A P (itn + 1) s1"
      by (rule reached_pass [OF "1.prems"(5) "1.prems"(3) True "1.prems"(4) b])
    show ?thesis
    proof (cases "0 < istop s1")
      case True
      with r n show ?thesis by simp
    next
      case False
      with r have l: "loop rq A P L b xz (itn + 1) s1 = Inr (itn', s')" by simp
      from False have z: "istop s1 = 0" by simp
      from "1.IH" [OF c b False "1.prems"(1) l "1.prems"(3) z n] show ?thesis .
    qed
  qed
qed

lemma solve_reached:
  assumes "solve rq A P = Inr r"
  shows "\<exists>s. reached rq A P (self_itn r) s \<and> self_x r = x_vec s \<and>
             self_r1norm r = r1norm s \<and> self_istop r = istop s"
proof -
  from assms obtain L bn xz s0 itn s where
    i: "init A P = Inr (L, bn, xz, s0)" and
    l: "loop rq A P L bn xz 0 s0 = Inr (itn, s)" and
    r: "self_itn r = itn" "self_x r = x_vec s" "self_r1norm r = r1norm s"
       "self_istop r = istop s"
    by (auto simp add: solve_def ebind_eq_Inr)
  have "reached rq A P itn s"
  proof (cases xz)
    case True
    with l have "itn = 0" "s = s0" by (simp_all add: loop_not_entered)
    with reached_init [OF i] show ?thesis by simp
  next
    case False
    with i have i': "init A P = Inr (L, bn, False, s0)" by simp
    from loop_reached [OF False l i' init_state(2) [OF i] reached_init [OF i]]
    show ?thesis .
  qed
  with r show ?thesis by auto
qed

section \<open>A pass in which beta is zero\<close>

lemma bidiag_beta_zero:
  assumes "bidiag A d s = Inr (s1, beta)" and "\<not> 0 < beta"
  shows "v_vec s1 = v_vec s \<and> alfa s1 = alfa s \<and> anorm s1 = anorm s \<and>
         (\<exists>Av. op_apply A (v_vec s) = Inr Av \<and> vsub Av (scal (alfa s) (u_vec s)) = Inr (u_vec s1))"
  using assms by (auto simp add: bidiag_def ebind_eq_Inr Let_def split: if_splits)

lemma deg_body1_none: "body rq deg_op (deg_request None) 3 1 1 deg_s0 = Inr deg_s1"
  by (simp add: pass_defs deg_op_def deg_request_def default_request_def
      deg_s0_def deg_s1_def sqrt_vals sqrt_vals3 power2_eq_square)

lemma sqrt_34_less: "sqrt 34 < 6"
proof -
  have "sqrt 34 < sqrt 36" by (rule real_sqrt_less_mono) simp
  also have "sqrt 36 = 6" by (rule sqrt_eqI; simp)
  finally show ?thesis .
qed

lemma deg_body2_none: "body rq deg_op (deg_request None) 3 1 2 deg_s1 = Inr deg_s2"
  using sqrt_34_less
  by (simp add: pass_defs deg_op_def deg_request_def default_request_def
      deg_s1_def deg_s2_def sqrt_vals sqrt_vals3 power2_eq_square)

lemma beta_collapse_without_radius:
  "solve rq deg_op (deg_request None) =
     Inr \<lparr>self_x = [3 / 25], self_var = None, self_istop = 2, self_itn = 2,
          self_r1norm = 16 / 25, self_r2norm = 4 / 5, self_anorm = sqrt 34,
          self_acond = sqrt 34 * sqrt (59 / 850), self_arnorm = 0, self_xnorm = 3 / 25,
          self_onBoundary = False, self_status = ''residual small'',
          self_ctol = Some (1 / 10 ^ 8)\<rparr>"
proof -
  have i: "istop deg_s1 = 0" "istop deg_s2 = 2"
    by (simp_all add: deg_s1_def deg_s2_def)
  have l: "loop rq deg_op (deg_request None) 3 1 False 0 deg_s0 = Inr (2, deg_s2)"
    by (simp add: loop_pass deg_body1_none deg_body2_none i)
  have c: "conlim (deg_request None) = 10 ^ 8"
    by (simp add: deg_request_def default_request_def)
  show ?thesis
    by (simp add: solve_def deg_init l c) (simp add: deg_s2_def status_of_def)
qed

section \<open>The boundary-limited step\<close>

lemma bidiag_keeps_w:
  "bidiag A d s = Inr (s1, beta) \<Longrightarrow>
     w_vec s1 = w_vec s \<and> x_vec s1 = x_vec s \<and> ddnorm s1 = ddnorm s \<and> xxnorm s1 = xxnorm s"
  by (auto simp add: bidiag_def ebind_eq_Inr Let_def split: if_splits)

lemma trust_region_active:
  assumes "trust_region rq ro s r = Inr s3" and "tr_active s3" and "\<not> tr_active s"
  shows "\<exists>rad stepMax.
           ro = Some rad \<and> step_max rq rad s (rot_t1 r) = Inr stepMax \<and>
           \<bar>stepMax\<bar> < \<bar>rot_t1 r\<bar> \<and>
           iadd (x_vec s) (scal stepMax (w_vec s)) = Inr (x_vec s3) \<and>
           xnorm s3 = rad \<and> istop s3 = 8 \<and> w_vec s3 = w_vec s \<and>
           ddnorm s3 = ddnorm s \<and> xxnorm s3 = xxnorm s"
  using assms
  by (auto simp add: trust_region_def ebind_eq_Inr split: option.splits if_splits)

lemma boundary_step_flow:
  assumes "body rq A P L bn i s = Inr s'" and "tr_active s'" and "\<not> tr_active s"
  shows "istop s' = 8 \<and> radius P = Some (xnorm s') \<and> w_vec s' = w_vec s \<and>
         ddnorm s' = ddnorm s \<and> xxnorm s' = xxnorm s"
proof -
  from assms(1) obtain s1 beta r s3 where
    bd: "bidiag A (damp P) s = Inr (s1, beta)" and
    t: "trust_region rq (radius P) (s1\<lparr>rhobar := rot_rhobar r, phibar := rot_phibar r\<rparr>) r = Inr s3" and
    f: "(if \<not> tr_active s3
         then full_step P (snd (shape A)) L bn i s3 r
                (scal (1 / rot_rho r) (w_vec (s1\<lparr>rhobar := rot_rhobar r, phibar := rot_phibar r\<rparr>)))
         else Inr s3) = Inr s'"
    by (auto simp add: body_def ebind_eq_Inr Let_def)
  have a3: "tr_active s3"
  proof (rule ccontr)
    assume n: "\<not> tr_active s3"
    with f have "full_step P (snd (shape A)) L bn i s3 r
                (scal (1 / rot_rho r) (w_vec (s1\<lparr>rhobar := rot_rhobar r, phibar := rot_phibar r\<rparr>))) = Inr s'"
      by simp
    from full_step_flags(1) [OF this] n assms(2) show False by simp
  qed
  with f have e: "s' = s3" by simp
  from bidiag_keeps_flags [OF bd] assms(3)
  have n2: "\<not> tr_active (s1\<lparr>rhobar := rot_rhobar r, phibar := rot_phibar r\<rparr>)"
    by simp
  from trust_region_active [OF t a3 n2] bidiag_keeps_w [OF bd] e show ?thesis
    by auto
qed

section \<open>The stop code of the last pass\<close>








lemma loop_enters:
  assumes "itn < L" and "loop rq A P L b False itn s = Inr (itn', s')"
  shows "itn < itn'"
proof -
  from assms(1) have u: "loop rq A P L b False itn s =
      (case body rq A P L b (itn + 1) s of
         Inl e \<Rightarrow> Inl e
       | Inr s1 \<Rightarrow> if 0 < istop s1 then Inr (itn + 1, s1)
                  else loop rq A P L b False (itn + 1) s1)"
    by (subst loop.simps) simp
  from assms(2) obtain s1 where
    r: "(if 0 < istop s1 then Inr (itn + 1, s1) else loop rq A P L b False (itn + 1) s1)
          = Inr (itn', s')"
    unfolding u by (auto split: sum.splits)
  show ?thesis
  proof (cases "0 < istop s1")
    case True
    with r show ?thesis by simp
  next
    case False
    with r have "loop rq A P L b False (itn + 1) s1 = Inr (itn', s')" by simp
    from loop_bounds [OF this] show ?thesis by simp
  qed
qed

section \<open>An operator that checks nothing\<close>

lemma loose_init:
  "0 < m \<Longrightarrow> init (loose_op m 2) (default_request [5]) = Inr (6, 5, False, loose_s0)"
  by (simp add: init_def loose_op_def default_request_def first_vectors_def norm_np_def
      vdiv_def zeros_def loose_s0_def sqrt_vals3 Let_def numeral_2_eq_2)

lemma loose_body:
  "body rq (loose_op m 2) (default_request [5]) 6 5 1 loose_s0 = Inr loose_s1"
  by (simp add: body_def bidiag_def rotations_def trust_region_def stage_defs vsub_def
      loose_op_def default_request_def loose_s0_def loose_s1_def sqrt_vals3 power2_eq_square)

lemma loose_solve:
  assumes "0 < m"
  shows "solve rq (loose_op m 2) (default_request [5]) = Inr loose_result"
proof -
  have l: "loop rq (loose_op m 2) (default_request [5]) 6 5 False 0 loose_s0 = Inr (1, loose_s1)"
    by (simp add: loop_pass loose_body loose_s1_def)
  have c: "conlim (default_request [5]) = 10 ^ 8"
    by (simp add: default_request_def)
  show ?thesis
    by (simp add: solve_def loose_init [OF assms] l c loose_s1_def loose_result_def status_of_def)
qed

section \<open>The claims\<close>

text \<open>
  C2. When several stopping conditions hold in the same pass, the stop code is that of the
  last satisfied test in the order of the source: the machine-precision guards 7, 6, 5, 4
  come first, the user tolerances 3, 2, 1 after them, and a later assignment overwrites
  an earlier one. With no test satisfied the code is left as it was.
\<close>

theorem stop_code_last_satisfied:
  "stop_tests itn itnlim1 test1 test2 test3 t1 ctol atl rtol istop0 =
     (case filter fst (stop_table itn itnlim1 test1 test2 test3 t1 ctol atl rtol) of
        [] \<Rightarrow> istop0
      | c # cs \<Rightarrow> snd (last (c # cs)))"
  by (simp add: stop_tests_def stop_table_def)

text \<open>
  C10. Every call with \<^verbatim>\<open>wantvar = True\<close> fails during initialisation, before the first
  pass: \<^verbatim>\<open>zeros(n, 1)\<close> passes \<open>1\<close> as the data type, so neither a solution nor a
  variance estimate is returned.
\<close>

theorem wantvar_fails: "wantvar P \<Longrightarrow> solve rq A P = Inl TypeError"
  by (simp add: solve_def init_def)

theorem wantvar_fails_witness:
  "wantvar ((default_request [1, 2])\<lparr>wantvar := True\<rparr>) \<and>
   solve roots_quadratic (identity_op 2) ((default_request [1, 2])\<lparr>wantvar := True\<rparr>)
     = Inl TypeError"
  using wantvar_fails [of "(default_request [1, 2])\<lparr>wantvar := True\<rparr>" roots_quadratic
      "identity_op 2"]
  by simp

text \<open>
  C5. Whenever the first product \<open>arnorm = alfa * beta\<close> is exactly zero, the call returns
  the zero vector of length \<open>n\<close> with stop code 0 and the loop is never entered
  (\<open>itn = 0\<close>); in particular for a zero right-hand side, whatever the operator. The
  call is one that gets as far as computing \<open>arnorm\<close>: \<^verbatim>\<open>wantvar\<close> is off, and the log
  line is not asked for on an operator without columns.
\<close>

theorem zero_arnorm_zero_solution:
  "(first_vectors A (rhs P) = Inr (u, v, w, alfa0, beta) \<and> alfa0 * beta = 0 \<and>
      \<not> wantvar P \<and> (show_log P \<longrightarrow> 0 < snd (shape A))
    \<longrightarrow> (case solve rq A P of Inl e \<Rightarrow> False
         | Inr r \<Rightarrow> self_x r = zeros (snd (shape A)) \<and> self_istop r = 0 \<and> self_itn r = 0))
   \<and> ((\<forall>a\<in>set (rhs P). a = 0) \<and> \<not> wantvar P \<and> (show_log P \<longrightarrow> 0 < snd (shape A))
    \<longrightarrow> (case solve rq A P of Inl e \<Rightarrow> False
         | Inr r \<Rightarrow> self_x r = zeros (snd (shape A)) \<and> self_istop r = 0 \<and> self_itn r = 0))"
proof (intro conjI impI)
  assume "first_vectors A (rhs P) = Inr (u, v, w, alfa0, beta) \<and> alfa0 * beta = 0 \<and>
      \<not> wantvar P \<and> (show_log P \<longrightarrow> 0 < snd (shape A))"
  then show "case solve rq A P of Inl e \<Rightarrow> False
         | Inr r \<Rightarrow> self_x r = zeros (snd (shape A)) \<and> self_istop r = 0 \<and> self_itn r = 0"
    by (auto simp add: solve_def init_def Let_def loop_not_entered)
next
  assume h: "(\<forall>a\<in>set (rhs P). a = 0) \<and> \<not> wantvar P \<and> (show_log P \<longrightarrow> 0 < snd (shape A))"
  then have "\<forall>a\<in>set (take (fst (shape A)) (rhs P)). a = 0"
    by (meson in_set_takeD)
  then have "norm_np (take (fst (shape A)) (rhs P)) = 0"
    by (rule norm_np_zero)
  then have "first_vectors A (rhs P) = Inr (take (fst (shape A)) (rhs P), [], [], 0, 0)"
    by (simp add: first_vectors_def)
  with h show "case solve rq A P of Inl e \<Rightarrow> False
         | Inr r \<Rightarrow> self_x r = zeros (snd (shape A)) \<and> self_istop r = 0 \<and> self_itn r = 0"
    by (auto simp add: solve_def init_def Let_def loop_not_entered)
qed

theorem zero_arnorm_zero_solution_witness:
  "first_vectors (dense_op 2 2 [[0, 0], [1, 1]]) (rhs (default_request [1, 0]))
     = Inr ([1, 0], [0, 0], [], 0, 1) \<and>
   (case solve roots_quadratic (dense_op 2 2 [[0, 0], [1, 1]]) (default_request [1, 0]) of
      Inl e \<Rightarrow> False
    | Inr r \<Rightarrow> self_x r = zeros 2 \<and> self_istop r = 0 \<and> self_itn r = 0) \<and>
   (case solve roots_quadratic ex_op (default_request [0, 0]) of
      Inl e \<Rightarrow> False
    | Inr r \<Rightarrow> self_x r = zeros 2 \<and> self_istop r = 0 \<and> self_itn r = 0)"
proof -
  have f: "first_vectors (dense_op 2 2 [[0, 0], [1, 1]]) (rhs (default_request [1, 0]))
     = Inr ([1, 0], [0, 0], [], 0, 1)"
    by (simp add: first_vectors_def dense_op_def default_request_def norm_np_def vdiv_def
        mat_vec_def Let_def)
  have s1: "snd (shape (dense_op 2 2 [[0, 0], [1, 1]])) = 2" "snd (shape ex_op) = 2"
    by (simp_all add: dense_op_def ex_op_def)
  have p: "\<not> wantvar (default_request b)" "\<not> show_log (default_request b)"
    "rhs (default_request b) = b" for b
    by (simp_all add: default_request_def)
  from zero_arnorm_zero_solution
         [of "dense_op 2 2 [[0, 0], [1, 1]]" "default_request [1, 0]" "[1, 0]" "[0, 0]" "[]" 0 1
             roots_quadratic]
       zero_arnorm_zero_solution
         [of ex_op "default_request [0, 0]" "[]" "[]" "[]" 0 0 roots_quadratic]
       f
  show ?thesis
    by (simp add: s1 p split: sum.splits)
qed



text \<open>
  C1. With \<open>conlim > 0\<close>, stop code 3 should be set exactly when
  \<open>test3 = 1 / acond \<le> 1 / conlim\<close> and neither test 1 nor test 2 fires. The code compares
  \<open>test3\<close> with the local \<open>ctol\<close>, which stays \<open>0.0\<close>. On the two-by-two system with
  \<open>conlim = 1/2\<close> and \<open>itnlim = 1\<close> the only pass ends with \<open>acond = 1\<close>, so
  \<open>test3 = 1 \<le> 2 = 1 / conlim\<close>, with \<open>test1 = 4/5\<close> above \<open>rtol\<close> and \<open>test2 = 9/16\<close>
  above \<open>atol\<close>; the call returns stop code 7, not 3.
\<close>

theorem conlim_test_uses_zero_ctol:
  "solve roots_quadratic ex_op (ex_request 1 (1 / 2) None) = Inr (ex_result1 (1 / 2)) \<and>
   0 < conlim (ex_request 1 (1 / 2) None) \<and>
   1 / self_acond (ex_result1 (1 / 2)) \<le> 1 / conlim (ex_request 1 (1 / 2) None) \<and>
   self_arnorm (ex_result1 (1 / 2))
     / (self_anorm (ex_result1 (1 / 2)) * self_r2norm (ex_result1 (1 / 2)))
     > atol (ex_request 1 (1 / 2) None) \<and>
   self_r2norm (ex_result1 (1 / 2)) / 200
     > btol (ex_request 1 (1 / 2) None)
       + atol (ex_request 1 (1 / 2) None) * self_anorm (ex_result1 (1 / 2))
           * self_xnorm (ex_result1 (1 / 2)) / 200 \<and>
   self_itn (ex_result1 (1 / 2)) = 1 \<and>
   self_istop (ex_result1 (1 / 2)) = 7 \<and>
   self_istop (ex_result1 (1 / 2)) \<noteq> 3"
proof -
  have e: "solve roots_quadratic ex_op (ex_request 1 (1 / 2) None) = Inr (ex_result1 (1 / 2))"
    by (rule ex_solve1)
  have "0 < conlim (ex_request 1 (1 / 2) None) \<and>
   1 / self_acond (ex_result1 (1 / 2)) \<le> 1 / conlim (ex_request 1 (1 / 2) None) \<and>
   self_arnorm (ex_result1 (1 / 2))
     / (self_anorm (ex_result1 (1 / 2)) * self_r2norm (ex_result1 (1 / 2)))
     > atol (ex_request 1 (1 / 2) None) \<and>
   self_r2norm (ex_result1 (1 / 2)) / 200
     > btol (ex_request 1 (1 / 2) None)
       + atol (ex_request 1 (1 / 2) None) * self_anorm (ex_result1 (1 / 2))
           * self_xnorm (ex_result1 (1 / 2)) / 200 \<and>
   self_itn (ex_result1 (1 / 2)) = 1 \<and>
   self_istop (ex_result1 (1 / 2)) = 7 \<and>
   self_istop (ex_result1 (1 / 2)) \<noteq> 3"
    by (simp add: ex_result1_def ex_request_def default_request_def)
  with e show ?thesis by (intro conjI) simp_all
qed

text \<open>
  C3. When \<open>|t1| > |stepMax|\<close> the boundary step \<open>x += stepMax * w\<close> is taken, the flag and
  stop code 8 are set and the pass ends without the full step; but \<open>stepMax\<close> is an
  absolute value, so when \<open>t1 < 0\<close> the step goes the wrong way along \<open>w\<close> and the
  returned \<open>x\<close> is not on the boundary (the flag, the stop code and the skipped full step
  are in lemma \<open>boundary_step_flow\<close>). On the two-by-two system with \<open>radius = 4\<close> the
  second pass has \<open>t1 = -64/9\<close> and \<open>stepMax = 28/25\<close>: the call returns
  \<open>x = [54/25, 28/25]\<close> with \<open>xnorm = 4\<close>, while \<open>norm(x)\<^sup>2 = 148/25\<close>, not \<open>16\<close>.
\<close>

theorem boundary_step_misses_radius:
  "solve roots_quadratic ex_op (ex_request 0 (10 ^ 8) (Some 4)) = Inr (ex_result2 (10 ^ 8)) \<and>
   self_onBoundary (ex_result2 (10 ^ 8)) \<and> self_istop (ex_result2 (10 ^ 8)) = 8 \<and>
   self_itn (ex_result2 (10 ^ 8)) = 2 \<and>
   self_xnorm (ex_result2 (10 ^ 8)) = 4 \<and>
   (norm_np (self_x (ex_result2 (10 ^ 8))))\<^sup>2 = 148 / 25 \<and>
   (norm_np (self_x (ex_result2 (10 ^ 8))))\<^sup>2 \<noteq> 4\<^sup>2"
  by (simp add: ex_solve2 ex_result2_def norm_np_def power2_eq_square)

text \<open>
  C6. A pass in which \<open>beta\<close> or \<open>alfa\<close> is zero skips the normalisation and should not
  make the call fail. With a trust-region radius it does: on the one-by-one system with
  \<open>damp = 4\<close> and \<open>radius = 1\<close>, \<open>beta\<close> is zero in the first pass, which leaves
  \<open>phibar = 0\<close> and sets no stop code (\<open>test2\<close> is \<open>0/0\<close>); in the second pass
  \<open>t1 = 0\<close>, no root has the sign of \<open>t1\<close>, and \<^verbatim>\<open>max\<close> of the empty list raises
  \<^verbatim>\<open>ValueError\<close>. Without the radius the same call ends in its second pass with stop
  code 2 (lemma \<open>beta_collapse_without_radius\<close>); what a pass with \<open>beta = 0\<close> leaves
  unchanged is in lemma \<open>bidiag_beta_zero\<close>.
\<close>

theorem beta_collapse_then_trust_region_raises:
  "solve roots_quadratic deg_op (deg_request (Some 1)) = Inl ValueError"
proof -
  have i: "istop deg_s1 = 0"
    by (simp add: deg_s1_def)
  have "loop roots_quadratic deg_op (deg_request (Some 1)) 3 1 False 0 deg_s0 = Inl ValueError"
    by (simp add: loop_pass deg_body1 deg_body2 i)
  then show ?thesis
    by (simp add: solve_def deg_init)
qed

text \<open>
  C4. A call whose operator shapes are inconsistent or whose right-hand side is shorter
  than \<open>m\<close> should be rejected before the loop, with no pass executed. \<^verbatim>\<open>solve\<close> has no
  check of its own, and \<^verbatim>\<open>rhs[:m]\<close> does not raise on a short array. On the two-by-two
  dense operator with \<open>rhs = [0]\<close> the call returns normally, with \<open>x = [0, 0]\<close> and stop
  code 0. On the operator that checks nothing, a pass is executed and the call returns
  \<open>x = [5, 5]\<close> with stop code 1, both for the short right-hand side \<open>[5]\<close> under the
  shape \<open>(2, 2)\<close> and for the inconsistent shape \<open>(1, 2)\<close>, whose transpose product
  returns a vector of length 1 where \<open>n = 2\<close>.
\<close>

theorem unchecked_inputs_accepted:
  "length (rhs (default_request [0])) < fst (shape ex_op) \<and>
   solve roots_quadratic ex_op (default_request [0]) =
     Inr \<lparr>self_x = [0, 0], self_var = None, self_istop = 0, self_itn = 0, self_r1norm = 0,
          self_r2norm = 0, self_anorm = 0, self_acond = 0, self_arnorm = 0, self_xnorm = 0,
          self_onBoundary = False, self_status = ''solution is zero'',
          self_ctol = Some (1 / 10 ^ 8)\<rparr> \<and>
   length (rhs (default_request [5])) < fst (shape (loose_op 2 2)) \<and>
   solve roots_quadratic (loose_op 2 2) (default_request [5]) = Inr loose_result \<and>
   length (rhs (default_request [5])) = fst (shape (loose_op 1 2)) \<and>
   op_applyT (loose_op 1 2) [1] = Inr [1] \<and>
   length [1 :: real] < snd (shape (loose_op 1 2)) \<and>
   solve roots_quadratic (loose_op 1 2) (default_request [5]) = Inr loose_result \<and>
   self_itn loose_result = 1 \<and> self_istop loose_result = 1 \<and> self_x loose_result = [5, 5]"
proof -
  have a: "solve roots_quadratic ex_op (default_request [0]) =
     Inr \<lparr>self_x = [0, 0], self_var = None, self_istop = 0, self_itn = 0, self_r1norm = 0,
          self_r2norm = 0, self_anorm = 0, self_acond = 0, self_arnorm = 0, self_xnorm = 0,
          self_onBoundary = False, self_status = ''solution is zero'',
          self_ctol = Some (1 / 10 ^ 8)\<rparr>"
    by (simp add: solve_def init_def first_vectors_def default_request_def ex_op_def dense_op_def
      norm_np_def zeros_def loop_not_entered status_of_def Let_def numeral_2_eq_2)
  have b: "solve roots_quadratic (loose_op 2 2) (default_request [5]) = Inr loose_result"
    "solve roots_quadratic (loose_op 1 2) (default_request [5]) = Inr loose_result"
    by (rule loose_solve; simp)+
  have c: "length (rhs (default_request [0])) < fst (shape ex_op)"
    "length (rhs (default_request [5])) < fst (shape (loose_op 2 2))"
    "length (rhs (default_request [5])) = fst (shape (loose_op 1 2))"
    "op_applyT (loose_op 1 2) [1] = Inr [1]"
    "length [1 :: real] < snd (shape (loose_op 1 2))"
    "self_itn loose_result = 1" "self_istop loose_result = 1" "self_x loose_result = [5, 5]"
    by (simp_all add: default_request_def ex_op_def dense_op_def loose_op_def loose_result_def)
  from a b c show ?thesis
    by (intro conjI)
qed

text \<open>
  C4, as the code has it, for every operator and every right-hand side. \<^verbatim>\<open>solve\<close> checks
  neither the operator's shapes nor the length of \<open>rhs\<close>. A call is rejected before the
  loop in exactly three cases: \<^verbatim>\<open>wantvar\<close> is set (\<^verbatim>\<open>TypeError\<close>); or \<^verbatim>\<open>rhs[:m]\<close> is
  non-zero and the operator's own transpose product raises on \<^verbatim>\<open>rhs[:m] / beta\<close>, whose
  exception is passed on; or the log is asked for with \<open>n = 0\<close> (\<^verbatim>\<open>IndexError\<close>). The
  call then fails with that exception and no pass is executed. Every other call with a
  non-zero \<open>alfa * beta\<close> and a positive iteration limit executes the first pass, whatever
  the shapes and lengths: it returns with \<open>itn \<ge> 1\<close> or raises in the loop.
\<close>

theorem rejection_before_loop:
  "(init A P = Inl e \<longleftrightarrow>
      (if wantvar P then e = TypeError
       else if 0 < norm_np (take (fst (shape A)) (rhs P)) \<and>
               isl (op_applyT A (vdiv (take (fst (shape A)) (rhs P))
                                      (norm_np (take (fst (shape A)) (rhs P)))))
            then op_applyT A (vdiv (take (fst (shape A)) (rhs P))
                                   (norm_np (take (fst (shape A)) (rhs P)))) = Inl e
            else show_log P \<and> snd (shape A) = 0 \<and> e = IndexError)) \<and>
   (init A P = Inl e \<longrightarrow> solve rq A P = Inl e) \<and>
   (init A P = Inr (L, b, False, s0) \<and> 0 < L
      \<longrightarrow> (case solve rq A P of Inl e' \<Rightarrow> True | Inr r \<Rightarrow> 0 < self_itn r))"
proof (intro conjI)
  show "init A P = Inl e \<longrightarrow> solve rq A P = Inl e"
    by (simp add: solve_def)
next
  show "init A P = Inr (L, b, False, s0) \<and> 0 < L
      \<longrightarrow> (case solve rq A P of Inl e' \<Rightarrow> True | Inr r \<Rightarrow> 0 < self_itn r)"
  proof
    assume h: "init A P = Inr (L, b, False, s0) \<and> 0 < L"
    show "case solve rq A P of Inl e' \<Rightarrow> True | Inr r \<Rightarrow> 0 < self_itn r"
    proof (cases "loop rq A P L b False 0 s0")
      case (Inl e')
      with h show ?thesis by (simp add: solve_def)
    next
      case (Inr q)
      obtain itn s where q: "q = (itn, s)" by (cases q)
      from h Inr q have "0 < itn"
        using loop_enters [of 0 L rq A P b s0 itn s] by simp
      with h Inr q show ?thesis by (simp add: solve_def)
    qed
  qed
next
  define u0 where "u0 = take (fst (shape A)) (rhs P)"
  show "init A P = Inl e \<longleftrightarrow>
      (if wantvar P then e = TypeError
       else if 0 < norm_np (take (fst (shape A)) (rhs P)) \<and>
               isl (op_applyT A (vdiv (take (fst (shape A)) (rhs P))
                                      (norm_np (take (fst (shape A)) (rhs P)))))
            then op_applyT A (vdiv (take (fst (shape A)) (rhs P))
                                   (norm_np (take (fst (shape A)) (rhs P)))) = Inl e
            else show_log P \<and> snd (shape A) = 0 \<and> e = IndexError)"
    unfolding u0_def [symmetric]
  proof (cases "wantvar P")
    case True
    then show "init A P = Inl e \<longleftrightarrow>
      (if wantvar P then e = TypeError
       else if 0 < norm_np u0 \<and> isl (op_applyT A (vdiv u0 (norm_np u0)))
            then op_applyT A (vdiv u0 (norm_np u0)) = Inl e
            else show_log P \<and> snd (shape A) = 0 \<and> e = IndexError)"
      by (auto simp add: init_def)
  next
    case nv: False
    show "init A P = Inl e \<longleftrightarrow>
      (if wantvar P then e = TypeError
       else if 0 < norm_np u0 \<and> isl (op_applyT A (vdiv u0 (norm_np u0)))
            then op_applyT A (vdiv u0 (norm_np u0)) = Inl e
            else show_log P \<and> snd (shape A) = 0 \<and> e = IndexError)"
    proof (cases "0 < norm_np u0")
      case False
      then have f: "first_vectors A (rhs P) = Inr (u0, [], [], 0, norm_np u0)"
        by (simp add: first_vectors_def u0_def Let_def)
      from nv False show ?thesis
        by (auto simp add: init_def f Let_def)
    next
      case pos: True
      show ?thesis
      proof (cases "op_applyT A (vdiv u0 (norm_np u0))")
        case (Inl e')
        with pos have f: "first_vectors A (rhs P) = Inl e'"
          by (simp add: first_vectors_def u0_def [symmetric] Let_def)
        from nv pos Inl show ?thesis
          by (auto simp add: init_def f Let_def)
      next
        case (Inr v0)
        with pos have f: "first_vectors A (rhs P) =
            Inr (vdiv u0 (norm_np u0), (if 0 < norm_np v0 then vdiv v0 (norm_np v0) else v0),
                (if 0 < norm_np v0 then vdiv v0 (norm_np v0) else []), norm_np v0, norm_np u0)"
          by (simp add: first_vectors_def u0_def [symmetric] Let_def)
        from nv pos Inr show ?thesis
          by (auto simp add: init_def f Let_def)
      qed
    qed
  qed
qed

theorem rejection_before_loop_witness:
  "init ex_op (default_request [5]) = Inl ValueError \<and>
   solve roots_quadratic ex_op (default_request [5]) = Inl ValueError \<and>
   init (loose_op 2 2) (default_request [5]) = Inr (6, 5, False, loose_s0) \<and>
   solve roots_quadratic (loose_op 2 2) (default_request [5]) = Inr loose_result \<and>
   0 < self_itn loose_result"
proof -
  have p: "\<not> wantvar (default_request [5])"
    "take (fst (shape ex_op)) (rhs (default_request [5])) = [5]"
    by (simp_all add: default_request_def ex_op_def dense_op_def)
  have n: "norm_np [5] = 5"
    by (simp add: norm_np_def sqrt_vals3)
  have t: "op_applyT ex_op (vdiv [5] 5) = Inl ValueError"
    by (simp add: ex_op_def dense_op_def vdiv_def)
  from rejection_before_loop [of ex_op "default_request [5]" ValueError roots_quadratic]
  have a: "init ex_op (default_request [5]) = Inl ValueError \<and>
      solve roots_quadratic ex_op (default_request [5]) = Inl ValueError"
    unfolding p n by (simp add: p t)
  have i: "init (loose_op 2 2) (default_request [5]) = Inr (6, 5, False, loose_s0)"
    by (rule loose_init) simp
  have s: "solve roots_quadratic (loose_op 2 2) (default_request [5]) = Inr loose_result"
    by (rule loose_solve) simp
  from rejection_before_loop [of "loose_op 2 2" "default_request [5]" ValueError roots_quadratic
      6 5 loose_s0] i
  have "0 < self_itn loose_result"
    unfolding s by simp
  with a i s show ?thesis by simp
qed



end
